theory Spec2Isabelle
  imports Complex_Main
begin

section \<open>bring-back-BOLO: the simulation core of \<open>src/src/bolo_engine.py\<close>\<close>

text \<open>
  Conventions of the embedding.
  \<^item> Python \<open>float\<close> values (positions, angles, speed multipliers) are idealised as
    \<open>real\<close>; Python \<open>int\<close> values are \<open>int\<close>, except object ids, which count up
    from 0 and are \<open>nat\<close>.
  \<^item> Python objects are shared and mutated in place. Entities therefore live in an
    object store (\<open>heap\<close>), and the containers of \<open>GameState\<close> hold references.
    \<open>Entity.__init__\<close> gives every object the next value of the process-wide counter
    \<open>Entity._next_id\<close>, so the \<open>id\<close> attribute identifies the object, and the store is
    keyed by it.
  \<^item> Rendering (\<open>draw\<close>, \<open>render\<close>, the cached terrain surface) is left out; the
    \<open>_dirty\<close> flag that \<open>set_tile\<close> raises is kept.
\<close>

subsection \<open>Configuration constants (class \<open>Config\<close>)\<close>

definition TILE_SIZE :: int where "TILE_SIZE = 16"
definition TANK_MAX_ARMOR :: int where "TANK_MAX_ARMOR = 8"
definition TANK_MAX_SHELLS :: int where "TANK_MAX_SHELLS = 40"
definition TANK_MAX_MINES :: int where "TANK_MAX_MINES = 40"
definition TANK_BASE_SPEED :: real where "TANK_BASE_SPEED = 2"
definition TANK_SIZE :: int where "TANK_SIZE = 12"
definition SHELL_DAMAGE :: int where "SHELL_DAMAGE = 1"
definition SHELL_SPEED :: real where "SHELL_SPEED = 6"
definition SHELL_LIFETIME :: int where "SHELL_LIFETIME = 90"
definition MINE_DAMAGE :: int where "MINE_DAMAGE = 4"
definition PILLBOX_MAX_HEALTH :: int where "PILLBOX_MAX_HEALTH = 16"
definition PILLBOX_FIRE_RATE :: int where "PILLBOX_FIRE_RATE = 30"
definition PILLBOX_RANGE :: real where "PILLBOX_RANGE = 150"
definition BASE_RESUPPLY_RATE :: int where "BASE_RESUPPLY_RATE = 1200"
definition WINDOW_WIDTH :: int where "WINDOW_WIDTH = 1024"
definition WINDOW_HEIGHT :: int where "WINDOW_HEIGHT = 768"

subsection \<open>Terrain kinds and the lookup table \<open>TERRAIN_DATA\<close>\<close>

datatype TileType =
  DEEP_WATER | RIVER | SWAMP | CRATER | ROAD | FOREST | RUBBLE | GRASS
  | WALL | DAMAGED_WALL | BOAT

record TerrainInfo =
  name :: string
  speed_multiplier :: real
  passable :: bool
  blocks_shots :: bool
  destructible :: bool
  color :: "int \<times> int \<times> int"

definition mk_terrain ::
  "string \<Rightarrow> real \<Rightarrow> bool \<Rightarrow> bool \<Rightarrow> bool \<Rightarrow> int \<times> int \<times> int \<Rightarrow> TerrainInfo" where
  "mk_terrain n s p b d c =
     \<lparr>name = n, speed_multiplier = s, passable = p, blocks_shots = b,
      destructible = d, color = c\<rparr>"

text \<open>The dictionary, one entry per line of the source.\<close>

fun TERRAIN_DATA :: "TileType \<rightharpoonup> TerrainInfo" where
  "TERRAIN_DATA DEEP_WATER = Some (mk_terrain ''Deep Water'' 0 False False False (20, 60, 120))"
| "TERRAIN_DATA RIVER = Some (mk_terrain ''River'' (3/10) True False False (40, 100, 160))"
| "TERRAIN_DATA SWAMP = Some (mk_terrain ''Swamp'' (25/100) True False True (60, 80, 40))"
| "TERRAIN_DATA CRATER = Some (mk_terrain ''Crater'' (5/10) True False False (80, 70, 50))"
| "TERRAIN_DATA ROAD = Some (mk_terrain ''Road'' (12/10) True False False (60, 60, 60))"
| "TERRAIN_DATA FOREST = Some (mk_terrain ''Forest'' (4/10) True False True (20, 80, 20))"
| "TERRAIN_DATA RUBBLE = Some (mk_terrain ''Rubble'' (6/10) True False False (90, 85, 75))"
| "TERRAIN_DATA GRASS = Some (mk_terrain ''Grass'' (8/10) True False False (50, 120, 50))"
| "TERRAIN_DATA WALL = Some (mk_terrain ''Wall'' 0 False True True (100, 100, 100))"
| "TERRAIN_DATA DAMAGED_WALL =
     Some (mk_terrain ''Damaged Wall'' 0 False True True (120, 110, 100))"
| "TERRAIN_DATA BOAT = Some (mk_terrain ''Boat'' (8/10) True False True (120, 80, 40))"

text \<open>\<open>TERRAIN_DATA.get(tile, TERRAIN_DATA[TileType.GRASS])\<close>.\<close>

definition terrain_get :: "TileType \<Rightarrow> TerrainInfo" where
  "terrain_get tile =
     (case TERRAIN_DATA tile of
        Some t \<Rightarrow> t
      | None \<Rightarrow> mk_terrain ''Grass'' (8/10) True False False (50, 120, 50))"

subsection \<open>The tile grid (class \<open>GameMap\<close>)\<close>

record GameMap =
  width :: int
  height :: int
  tiles :: "TileType list list"
  dirty :: bool

text \<open>\<open>GameMap.__init__\<close>: \<open>height\<close> rows of \<open>width\<close> grass cells.\<close>

definition GameMap_init :: "int \<Rightarrow> int \<Rightarrow> GameMap" where
  "GameMap_init w h =
     \<lparr>width = w, height = h, tiles = replicate (nat h) (replicate (nat w) GRASS),
      dirty = True\<rparr>"

text \<open>
  The shape the constructor establishes and every method keeps: the row list has
  \<open>height\<close> rows of \<open>width\<close> cells. Inside the bounds check of \<open>get_tile\<close> and
  \<open>set_tile\<close> the subscripts \<open>tiles[y][x]\<close> are then in range; on a grid of any other
  shape Python would raise \<open>IndexError\<close>, which no method of the class can bring about.
\<close>

definition wf_map :: "GameMap \<Rightarrow> bool" where
  "wf_map m \<longleftrightarrow>
     0 \<le> width m \<and> 0 \<le> height m \<and> length (tiles m) = nat (height m) \<and>
     list_all (\<lambda>row. length row = nat (width m)) (tiles m)"

definition in_bounds :: "GameMap \<Rightarrow> int \<Rightarrow> int \<Rightarrow> bool" where
  "in_bounds m x y \<longleftrightarrow> 0 \<le> x \<and> x < width m \<and> 0 \<le> y \<and> y < height m"

definition pixel_width :: "GameMap \<Rightarrow> int" where
  "pixel_width m = width m * TILE_SIZE"

definition pixel_height :: "GameMap \<Rightarrow> int" where
  "pixel_height m = height m * TILE_SIZE"

definition get_tile :: "GameMap \<Rightarrow> int \<Rightarrow> int \<Rightarrow> TileType" where
  "get_tile m x y =
     (if 0 \<le> x \<and> x < width m \<and> 0 \<le> y \<and> y < height m
      then tiles m ! nat y ! nat x
      else WALL)"

definition set_tile :: "GameMap \<Rightarrow> int \<Rightarrow> int \<Rightarrow> TileType \<Rightarrow> GameMap" where
  "set_tile m x y tile_type =
     (if 0 \<le> x \<and> x < width m \<and> 0 \<le> y \<and> y < height m
      then m\<lparr>tiles := (tiles m)[nat y := (tiles m ! nat y)[nat x := tile_type]],
             dirty := True\<rparr>
      else m)"

definition damage_tile :: "GameMap \<Rightarrow> int \<Rightarrow> int \<Rightarrow> GameMap" where
  "damage_tile m x y =
     (let tile = get_tile m x y in
      if tile = WALL then set_tile m x y DAMAGED_WALL
      else if tile = DAMAGED_WALL then set_tile m x y RUBBLE
      else if tile = FOREST then set_tile m x y GRASS
      else if tile = SWAMP then set_tile m x y CRATER
      else m)"

subsection \<open>Entities\<close>

datatype Team = NEUTRAL | TEAM_1 | TEAM_2 | TEAM_3 | TEAM_4

text \<open>
  Class \<open>Entity\<close>: position and the \<open>alive\<close> flag. The \<open>id\<close> attribute is the key of
  the object in the store, see \<open>new_id\<close> below.
\<close>

record Entity =
  pos_x :: real
  pos_y :: real
  alive :: bool

record Resources =
  armor :: int
  shells :: int
  mines :: int
  wood :: int

record tank = Entity +
  tank_team :: Team
  tank_angle :: real
  resources :: Resources
  tank_speed :: real
  tank_size :: int
  is_moving :: bool
  has_boat :: bool
  lgm_deployed :: bool
  lgm_position :: "(real \<times> real) option"
  lgm_respawn_timer :: int
  carried_pillboxes :: "nat list"
  tank_fire_cooldown :: int
  tank_fire_rate :: int

record shell = Entity +
  shell_angle :: real
  shell_team :: Team
  owner_id :: nat
  shell_speed :: real
  shell_damage :: int
  lifetime :: int
  shell_radius :: int

record mine = Entity +
  mine_team :: Team
  hidden :: bool
  mine_damage :: int
  mine_radius :: int
  detection_radius :: int

record pillbox = Entity +
  pillbox_team :: Team
  pillbox_health :: int
  pillbox_fire_rate :: int
  pillbox_fire_cooldown :: int
  pillbox_range :: real
  pillbox_size :: int
  active :: bool
  aggression :: int

record base = Entity +
  base_team :: Team
  base_health :: int
  base_size :: int
  base_shells :: int
  base_mines :: int
  base_armor :: int
  regen_timer :: int

datatype entity = Tank tank | Shell shell | Mine mine | Pillbox pillbox | Base base

fun ent_x :: "entity \<Rightarrow> real" where
  "ent_x (Tank t) = pos_x t"
| "ent_x (Shell s) = pos_x s"
| "ent_x (Mine m) = pos_x m"
| "ent_x (Pillbox p) = pos_x p"
| "ent_x (Base b) = pos_x b"

fun ent_y :: "entity \<Rightarrow> real" where
  "ent_y (Tank t) = pos_y t"
| "ent_y (Shell s) = pos_y s"
| "ent_y (Mine m) = pos_y m"
| "ent_y (Pillbox p) = pos_y p"
| "ent_y (Base b) = pos_y b"

fun ent_alive :: "entity \<Rightarrow> bool" where
  "ent_alive (Tank t) = alive t"
| "ent_alive (Shell s) = alive s"
| "ent_alive (Mine m) = alive m"
| "ent_alive (Pillbox p) = alive p"
| "ent_alive (Base b) = alive b"

text \<open>
  \<open>Entity.__init__\<close> reads and increments the class attribute \<open>_next_id\<close>: given the
  counter, the id of the new object and the counter afterwards.
\<close>

definition new_id :: "nat \<Rightarrow> nat \<times> nat" where
  "new_id n = (n, n + 1)"

text \<open>\<open>Entity.tile_position\<close>: \<open>(int(x // TILE_SIZE), int(y // TILE_SIZE))\<close>.\<close>

definition tile_position :: "real \<Rightarrow> real \<Rightarrow> int \<times> int" where
  "tile_position px py = (\<lfloor>px / real_of_int TILE_SIZE\<rfloor>, \<lfloor>py / real_of_int TILE_SIZE\<rfloor>)"

text \<open>\<open>Entity.destroy\<close> sets \<open>alive\<close> to \<open>False\<close>; it is written \<open>e\<lparr>alive := False\<rparr>\<close>.\<close>

text \<open>\<open>math.radians\<close>, \<open>math.degrees\<close>, \<open>math.atan2\<close> and the Euclidean distance
  \<open>math.sqrt((a.x - b.x)**2 + (a.y - b.y)**2)\<close>.\<close>

definition radians :: "real \<Rightarrow> real" where
  "radians a = a * pi / 180"

definition degrees :: "real \<Rightarrow> real" where
  "degrees a = a * 180 / pi"

definition atan2 :: "real \<Rightarrow> real \<Rightarrow> real" where
  "atan2 dy dx =
     (if 0 < dx then arctan (dy / dx)
      else if dx < 0 then (if 0 \<le> dy then arctan (dy / dx) + pi else arctan (dy / dx) - pi)
      else if 0 < dy then pi / 2
      else if dy < 0 then - pi / 2
      else 0)"

definition distance :: "real \<Rightarrow> real \<Rightarrow> real \<Rightarrow> real \<Rightarrow> real" where
  "distance x1 y1 x2 y2 = sqrt ((x1 - x2)\<^sup>2 + (y1 - y2)\<^sup>2)"

subsubsection \<open>Shell\<close>

text \<open>\<open>Shell.__init__\<close>, given the id counter: the new id, the object, the counter.\<close>

definition Shell_init ::
  "nat \<Rightarrow> real \<Rightarrow> real \<Rightarrow> real \<Rightarrow> Team \<Rightarrow> nat \<Rightarrow> nat \<times> shell \<times> nat" where
  "Shell_init n px py ang tm owner =
     (let (i, n') = new_id n in
      (i,
       \<lparr>pos_x = px, pos_y = py, alive = True,
        shell_angle = ang, shell_team = tm, owner_id = owner,
        shell_speed = SHELL_SPEED, shell_damage = SHELL_DAMAGE,
        lifetime = SHELL_LIFETIME, shell_radius = 3\<rparr>,
       n'))"

text \<open>\<open>Shell.update\<close>: the shell and the map afterwards.\<close>

definition Shell_update :: "GameMap \<Rightarrow> shell \<Rightarrow> shell \<times> GameMap" where
  "Shell_update m sh =
     (let sh1 = sh\<lparr>pos_x := pos_x sh + cos (radians (shell_angle sh)) * shell_speed sh\<rparr>;
          sh2 = sh1\<lparr>pos_y := pos_y sh1 + sin (radians (shell_angle sh1)) * shell_speed sh1\<rparr>;
          sh3 = sh2\<lparr>lifetime := lifetime sh2 - 1\<rparr>
      in if lifetime sh3 \<le> 0 then (sh3\<lparr>alive := False\<rparr>, m)
         else
           let (tx, ty) = tile_position (pos_x sh3) (pos_y sh3);
               terrain = terrain_get (get_tile m tx ty)
           in if blocks_shots terrain
              then (sh3\<lparr>alive := False\<rparr>,
                    if destructible terrain then damage_tile m tx ty else m)
              else if pos_x sh3 < 0 \<or> pos_x sh3 > real_of_int (pixel_width m) \<or>
                      pos_y sh3 < 0 \<or> pos_y sh3 > real_of_int (pixel_height m)
                   then (sh3\<lparr>alive := False\<rparr>, m)
                   else (sh3, m))"

subsubsection \<open>Tank\<close>

definition Resources_init :: Resources where
  "Resources_init =
     \<lparr>armor = TANK_MAX_ARMOR, shells = TANK_MAX_SHELLS, mines = TANK_MAX_MINES, wood = 0\<rparr>"

definition Tank_init :: "real \<Rightarrow> real \<Rightarrow> Team \<Rightarrow> tank" where
  "Tank_init px py tm =
     \<lparr>pos_x = px, pos_y = py, alive = True,
      tank_team = tm, tank_angle = 0, resources = Resources_init,
      tank_speed = TANK_BASE_SPEED, tank_size = TANK_SIZE,
      is_moving = False, has_boat = False,
      lgm_deployed = False, lgm_position = None, lgm_respawn_timer = 0,
      carried_pillboxes = [], tank_fire_cooldown = 0, tank_fire_rate = 10\<rparr>"

definition Tank_update :: "tank \<Rightarrow> tank" where
  "Tank_update t =
     (let t1 = (if tank_fire_cooldown t > 0
                then t\<lparr>tank_fire_cooldown := tank_fire_cooldown t - 1\<rparr> else t)
      in if lgm_respawn_timer t1 > 0
         then (let t2 = t1\<lparr>lgm_respawn_timer := lgm_respawn_timer t1 - 1\<rparr>
               in if lgm_respawn_timer t2 = 0 then t2\<lparr>lgm_deployed := False\<rparr> else t2)
         else t1)"

text \<open>\<open>Tank._get_terrain_speed\<close>.\<close>

definition get_terrain_speed :: "GameMap \<Rightarrow> tank \<Rightarrow> real" where
  "get_terrain_speed m t =
     (let (tx, ty) = tile_position (pos_x t) (pos_y t);
          tile = get_tile m tx ty;
          terrain = terrain_get tile
      in if (tile = DEEP_WATER \<or> tile = RIVER) \<and> \<not> has_boat t
         then (if tile = DEEP_WATER then 0 else speed_multiplier terrain)
         else speed_multiplier terrain)"

text \<open>\<open>Tank._can_move_to\<close>.\<close>

definition can_move_to :: "GameMap \<Rightarrow> tank \<Rightarrow> real \<Rightarrow> real \<Rightarrow> bool" where
  "can_move_to m t nx ny =
     (if nx < real_of_int (tank_size t) \<or>
         nx > real_of_int (pixel_width m - tank_size t) then False
      else if ny < real_of_int (tank_size t) \<or>
              ny > real_of_int (pixel_height m - tank_size t) then False
      else
        let (tile_x, tile_y) = tile_position nx ny;
            tile = get_tile m tile_x tile_y;
            terrain = terrain_get tile
        in if \<not> passable terrain
           then (if tile = DEEP_WATER \<and> has_boat t then True else False)
           else True)"

definition move_forward :: "GameMap \<Rightarrow> tank \<Rightarrow> tank" where
  "move_forward m t =
     (let terrain_speed = get_terrain_speed m t in
      if terrain_speed \<le> 0 then t
      else
        let dx = cos (radians (tank_angle t)) * tank_speed t * terrain_speed;
            dy = sin (radians (tank_angle t)) * tank_speed t * terrain_speed;
            new_x = pos_x t + dx;
            new_y = pos_y t + dy
        in if can_move_to m t new_x new_y
           then t\<lparr>pos_x := new_x, pos_y := new_y, is_moving := True\<rparr>
           else t)"

definition move_backward :: "GameMap \<Rightarrow> tank \<Rightarrow> tank" where
  "move_backward m t =
     (let terrain_speed = get_terrain_speed m t in
      if terrain_speed \<le> 0 then t
      else
        let dx = cos (radians (tank_angle t)) * tank_speed t * terrain_speed * (6/10);
            dy = sin (radians (tank_angle t)) * tank_speed t * terrain_speed * (6/10);
            new_x = pos_x t - dx;
            new_y = pos_y t - dy
        in if can_move_to m t new_x new_y
           then t\<lparr>pos_x := new_x, pos_y := new_y, is_moving := True\<rparr>
           else t)"

text \<open>
  \<open>Tank.fire\<close>, given the id counter and the tank's own id: the counter and the tank
  afterwards, and the returned shell with its id (\<open>None\<close> for Python's \<open>None\<close>).
\<close>

definition fire :: "nat \<Rightarrow> nat \<Rightarrow> tank \<Rightarrow> nat \<times> tank \<times> (nat \<times> shell) option" where
  "fire n self_id t =
     (if tank_fire_cooldown t > 0 \<or> shells (resources t) \<le> 0 then (n, t, None)
      else
        let t1 = t\<lparr>resources := (resources t)\<lparr>shells := shells (resources t) - 1\<rparr>\<rparr>;
            t2 = t1\<lparr>tank_fire_cooldown := tank_fire_rate t1\<rparr>;
            cannon_length = tank_size t2 + 8;
            shell_x = pos_x t2 + cos (radians (tank_angle t2)) * real_of_int cannon_length;
            shell_y = pos_y t2 + sin (radians (tank_angle t2)) * real_of_int cannon_length;
            (i, sh, n') = Shell_init n shell_x shell_y (tank_angle t2) (tank_team t2) self_id
        in (n', t2, Some (i, sh)))"

text \<open>\<open>Tank.take_damage\<close>.\<close>

definition take_damage :: "tank \<Rightarrow> int \<Rightarrow> tank" where
  "take_damage t amount =
     (let t1 = t\<lparr>resources := (resources t)\<lparr>armor := armor (resources t) - amount\<rparr>\<rparr>
      in if armor (resources t1) \<le> 0 then t1\<lparr>alive := False\<rparr> else t1)"

text \<open>\<open>Tank.resupply\<close>; the base argument is not read.\<close>

definition resupply :: "tank \<Rightarrow> base \<Rightarrow> tank" where
  "resupply t b =
     (let r = resources t;
          r1 = r\<lparr>armor := min TANK_MAX_ARMOR (armor r + 1)\<rparr>;
          r2 = r1\<lparr>shells := min TANK_MAX_SHELLS (shells r1 + 5)\<rparr>;
          r3 = r2\<lparr>mines := min TANK_MAX_MINES (mines r2 + 2)\<rparr>
      in t\<lparr>resources := r3\<rparr>)"

subsubsection \<open>Mine\<close>

definition Mine_init :: "real \<Rightarrow> real \<Rightarrow> Team \<Rightarrow> bool \<Rightarrow> mine" where
  "Mine_init px py tm hid =
     \<lparr>pos_x = px, pos_y = py, alive = True,
      mine_team = tm, hidden = hid, mine_damage = MINE_DAMAGE, mine_radius = 6,
      detection_radius = 4\<rparr>"

text \<open>\<open>Mine.detonate\<close>: a crater under the mine, and the mine is destroyed.\<close>

definition detonate :: "GameMap \<Rightarrow> mine \<Rightarrow> mine \<times> GameMap" where
  "detonate m mn =
     (let (tx, ty) = tile_position (pos_x mn) (pos_y mn)
      in (mn\<lparr>alive := False\<rparr>, set_tile m tx ty CRATER))"

subsubsection \<open>Pillbox\<close>

definition Pillbox_init :: "real \<Rightarrow> real \<Rightarrow> Team \<Rightarrow> pillbox" where
  "Pillbox_init px py tm =
     \<lparr>pos_x = px, pos_y = py, alive = True,
      pillbox_team = tm, pillbox_health = PILLBOX_MAX_HEALTH,
      pillbox_fire_rate = PILLBOX_FIRE_RATE, pillbox_fire_cooldown = 0,
      pillbox_range = PILLBOX_RANGE, pillbox_size = 8, active = True, aggression = 0\<rparr>"

text \<open>\<open>Pillbox.take_damage\<close>.\<close>

definition Pillbox_take_damage :: "pillbox \<Rightarrow> int \<Rightarrow> pillbox" where
  "Pillbox_take_damage p amount =
     (let p1 = p\<lparr>pillbox_health := pillbox_health p - amount\<rparr>;
          p2 = p1\<lparr>aggression := min 8 (aggression p1 + 1)\<rparr>
      in if pillbox_health p2 \<le> 0
         then p2\<lparr>pillbox_team := NEUTRAL, pillbox_health := 0, active := False\<rparr>
         else p2)"

text \<open>\<open>Pillbox.capture\<close>.\<close>

definition Pillbox_capture :: "pillbox \<Rightarrow> Team \<Rightarrow> pillbox" where
  "Pillbox_capture p new_team =
     p\<lparr>pillbox_team := new_team, pillbox_health := PILLBOX_MAX_HEALTH div 2,
       active := True, aggression := 0\<rparr>"

text \<open>
  \<open>Pillbox._fire_at\<close>, given the id counter, the pillbox's own id and the target's
  position: the id counter and the pillbox afterwards, and the new shell with its id.
\<close>

definition fire_at ::
  "nat \<Rightarrow> nat \<Rightarrow> pillbox \<Rightarrow> real \<Rightarrow> real \<Rightarrow> nat \<times> pillbox \<times> nat \<times> shell" where
  "fire_at n self_id p target_x target_y =
     (let ang = degrees (atan2 (target_y - pos_y p) (target_x - pos_x p));
          adjusted_rate = max 5 (pillbox_fire_rate p - aggression p * 3);
          p1 = p\<lparr>pillbox_fire_cooldown := adjusted_rate\<rparr>;
          (i, sh, n') = Shell_init n (pos_x p1) (pos_y p1) ang (pillbox_team p1) self_id
      in (n', p1, i, sh))"

subsubsection \<open>Base\<close>

definition Base_init :: "real \<Rightarrow> real \<Rightarrow> Team \<Rightarrow> base" where
  "Base_init px py tm =
     \<lparr>pos_x = px, pos_y = py, alive = True,
      base_team = tm, base_health = 16, base_size = 16,
      base_shells = 20, base_mines = 10, base_armor = 8,
      regen_timer = BASE_RESUPPLY_RATE\<rparr>"

definition Base_update :: "base \<Rightarrow> base" where
  "Base_update b =
     (let b1 = b\<lparr>regen_timer := regen_timer b - 1\<rparr>
      in if regen_timer b1 \<le> 0
         then b1\<lparr>regen_timer := BASE_RESUPPLY_RATE,
                 base_shells := min 40 (base_shells b1 + 1),
                 base_mines := min 20 (base_mines b1 + 1),
                 base_armor := min 16 (base_armor b1 + 1)\<rparr>
         else b1)"

text \<open>
  \<open>Base.resupply_tank\<close>, in three steps as the source has them: the returned flag, the
  base and the tank afterwards.
\<close>

definition resupply_armor :: "bool \<times> base \<times> tank \<Rightarrow> bool \<times> base \<times> tank" where
  "resupply_armor = (\<lambda>(resupplied, b, t).
     if armor (resources t) < TANK_MAX_ARMOR \<and> base_armor b > 0
     then (let transfer = min 1 (min (base_armor b) (TANK_MAX_ARMOR - armor (resources t)))
           in (True,
               b\<lparr>base_armor := base_armor b - transfer\<rparr>,
               t\<lparr>resources := (resources t)\<lparr>armor := armor (resources t) + transfer\<rparr>\<rparr>))
     else (resupplied, b, t))"

definition resupply_shells :: "bool \<times> base \<times> tank \<Rightarrow> bool \<times> base \<times> tank" where
  "resupply_shells = (\<lambda>(resupplied, b, t).
     if shells (resources t) < TANK_MAX_SHELLS \<and> base_shells b > 0
     then (let transfer = min 5 (min (base_shells b) (TANK_MAX_SHELLS - shells (resources t)))
           in (True,
               b\<lparr>base_shells := base_shells b - transfer\<rparr>,
               t\<lparr>resources := (resources t)\<lparr>shells := shells (resources t) + transfer\<rparr>\<rparr>))
     else (resupplied, b, t))"

definition resupply_mines :: "bool \<times> base \<times> tank \<Rightarrow> bool \<times> base \<times> tank" where
  "resupply_mines = (\<lambda>(resupplied, b, t).
     if mines (resources t) < TANK_MAX_MINES \<and> base_mines b > 0
     then (let transfer = min 2 (min (base_mines b) (TANK_MAX_MINES - mines (resources t)))
           in (True,
               b\<lparr>base_mines := base_mines b - transfer\<rparr>,
               t\<lparr>resources := (resources t)\<lparr>mines := mines (resources t) + transfer\<rparr>\<rparr>))
     else (resupplied, b, t))"

definition resupply_tank :: "base \<Rightarrow> tank \<Rightarrow> bool \<times> base \<times> tank" where
  "resupply_tank b t =
     (if tank_team t \<noteq> base_team b then (False, b, t)
      else resupply_mines (resupply_shells (resupply_armor (False, b, t))))"

text \<open>\<open>Base.capture\<close>.\<close>

definition Base_capture :: "base \<Rightarrow> Team \<Rightarrow> base" where
  "Base_capture b new_team = b\<lparr>base_team := new_team, base_health := 8\<rparr>"

text \<open>
  The body of the Tank-Base loop of \<open>GameState._process_collisions\<close> once the two
  overlap: resupply by a base of the tank's team, capture of a neutral base, nothing
  otherwise.
\<close>

definition tank_base_contact :: "tank \<Rightarrow> base \<Rightarrow> tank \<times> base" where
  "tank_base_contact t b =
     (if base_team b = tank_team t
      then (let (resupplied, b', t') = resupply_tank b t in (t', b'))
      else if base_team b = NEUTRAL then (t, Base_capture b (tank_team t))
      else (t, b))"

subsection \<open>Simulation state (class \<open>GameState\<close>)\<close>

text \<open>
  Beside the attributes of \<open>GameState\<close>, the record threads the object store and the two
  pieces of process-wide state the update reads: the id counter \<open>Entity._next_id\<close> and
  the values that the coming calls of \<open>random.random()\<close> return.
\<close>

record GameState =
  game_map :: GameMap
  entities :: "nat list"
  pending_entities :: "nat list"
  player :: "nat option"
  camera_x :: real
  camera_y :: real
  paused :: bool
  game_over :: bool
  score :: int
  heap :: "nat \<rightharpoonup> entity"
  next_id :: nat
  rng :: "nat \<Rightarrow> real"

definition random :: "GameState \<Rightarrow> real \<times> GameState" where
  "random s = (rng s 0, s\<lparr>rng := (\<lambda>k. rng s (Suc k))\<rparr>)"

definition add_entity :: "nat \<Rightarrow> GameState \<Rightarrow> GameState" where
  "add_entity r s = s\<lparr>pending_entities := pending_entities s @ [r]\<rparr>"

definition remove_dead_entities :: "GameState \<Rightarrow> GameState" where
  "remove_dead_entities s =
     s\<lparr>entities :=
         filter (\<lambda>r. case heap s r of Some e \<Rightarrow> ent_alive e | None \<Rightarrow> False) (entities s)\<rparr>"

subsubsection \<open>Per-entity update\<close>

text \<open>
  \<open>Pillbox._find_target\<close>: the loop over \<open>game_state.entities\<close>. \<open>best\<close> holds
  \<open>best_target\<close> together with \<open>best_distance\<close>; \<open>None\<close> stands for the initial pair
  \<open>(None, inf)\<close>, below which every distance lies.
\<close>

fun find_target_scan ::
  "(nat \<rightharpoonup> entity) \<Rightarrow> pillbox \<Rightarrow> (nat \<times> real) option \<Rightarrow> nat list \<Rightarrow> (nat \<times> real) option" where
  "find_target_scan h p best [] = best"
| "find_target_scan h p best (r # rs) =
     (case h r of
        Some (Tank t) \<Rightarrow>
          if tank_team t \<noteq> pillbox_team p
          then (let dist = distance (pos_x t) (pos_y t) (pos_x p) (pos_y p)
                in if dist < pillbox_range p \<and>
                      (case best of None \<Rightarrow> True | Some (bt, best_distance) \<Rightarrow> dist < best_distance)
                   then find_target_scan h p (Some (r, dist)) rs
                   else find_target_scan h p best rs)
          else find_target_scan h p best rs
      | _ \<Rightarrow> find_target_scan h p best rs)"

definition find_target :: "GameState \<Rightarrow> pillbox \<Rightarrow> nat option" where
  "find_target s p = map_option fst (find_target_scan (heap s) p None (entities s))"

text \<open>
  \<open>Pillbox.update\<close> for the pillbox \<open>p\<close> stored under \<open>self_id\<close>. \<open>random.random()\<close> is
  called only when \<open>aggression > 0\<close> (\<open>and\<close> short-cuts). A shell that \<open>_fire_at\<close>
  returns is a new object: it enters the store and goes to \<open>add_entity\<close>.
\<close>

definition Pillbox_update :: "nat \<Rightarrow> pillbox \<Rightarrow> GameState \<Rightarrow> GameState" where
  "Pillbox_update self_id p s =
     (if \<not> active p then s
      else
        let p1 = (if pillbox_fire_cooldown p > 0
                  then p\<lparr>pillbox_fire_cooldown := pillbox_fire_cooldown p - 1\<rparr> else p);
            (p2, s1) =
              (if aggression p1 > 0
               then (let (u, s') = random s
                     in if u < 1/100
                        then (p1\<lparr>aggression := max 0 (aggression p1 - 1)\<rparr>, s')
                        else (p1, s'))
               else (p1, s))
        in if pillbox_fire_cooldown p2 \<le> 0
           then (case find_target s1 p2 of
                   None \<Rightarrow> s1\<lparr>heap := (heap s1)(self_id \<mapsto> Pillbox p2)\<rparr>
                 | Some target \<Rightarrow>
                     (case heap s1 target of
                        None \<Rightarrow> s1\<lparr>heap := (heap s1)(self_id \<mapsto> Pillbox p2)\<rparr>
                      | Some e \<Rightarrow>
                          let (n', p3, i, sh) =
                                fire_at (next_id s1) self_id p2 (ent_x e) (ent_y e);
                              s2 = s1\<lparr>heap := (heap s1)(self_id \<mapsto> Pillbox p3, i \<mapsto> Shell sh),
                                      next_id := n'\<rparr>
                          in add_entity i s2))
           else s1\<lparr>heap := (heap s1)(self_id \<mapsto> Pillbox p2)\<rparr>)"

text \<open>\<open>entity.update(self)\<close>, dispatched on the class of the object; \<open>Mine.update\<close> is
  \<open>pass\<close>.\<close>

definition entity_update :: "nat \<Rightarrow> GameState \<Rightarrow> GameState" where
  "entity_update r s =
     (case heap s r of
        None \<Rightarrow> s
      | Some (Tank t) \<Rightarrow> s\<lparr>heap := (heap s)(r \<mapsto> Tank (Tank_update t))\<rparr>
      | Some (Shell sh) \<Rightarrow>
          (let (sh', m') = Shell_update (game_map s) sh
           in s\<lparr>heap := (heap s)(r \<mapsto> Shell sh'), game_map := m'\<rparr>)
      | Some (Mine mn) \<Rightarrow> s
      | Some (Pillbox p) \<Rightarrow> Pillbox_update r p s
      | Some (Base b) \<Rightarrow> s\<lparr>heap := (heap s)(r \<mapsto> Base (Base_update b))\<rparr>)"

text \<open>\<open>for entity in self.entities: entity.update(self)\<close>; no update assigns or
  resizes \<open>self.entities\<close>, so the loop runs over the list as it is at its start.\<close>

definition update_entities :: "GameState \<Rightarrow> GameState" where
  "update_entities s = fold entity_update (entities s) s"

subsubsection \<open>Collision resolution\<close>

text \<open>
  The calls that \<open>_process_collisions\<close> makes are recorded beside the state they
  produce: a shell \<open>i\<close> damaging a tank or a pillbox \<open>j\<close> (\<open>other.take_damage\<close>), a mine
  \<open>i\<close> damaging a tank \<open>j\<close>, a tank \<open>i\<close> in contact with a base \<open>j\<close>. The record is
  only written, never read, by the functions below.
\<close>

datatype contact =
  ShellTank nat nat | ShellPillbox nat nat | MineTank nat nat | TankBase nat nat

text \<open>Shell against Tank: the inner loop for the shell \<open>sh\<close> stored under \<open>i\<close>.\<close>

fun shell_tank_scan ::
  "(nat \<rightharpoonup> entity) \<Rightarrow> nat \<Rightarrow> shell \<Rightarrow> nat list \<Rightarrow> (nat \<rightharpoonup> entity) \<times> contact list" where
  "shell_tank_scan h i sh [] = (h, [])"
| "shell_tank_scan h i sh (j # js) =
     (case h j of
        Some (Tank other) \<Rightarrow>
          if alive other
          then (if j = owner_id sh then shell_tank_scan h i sh js
                else if tank_team other = shell_team sh then shell_tank_scan h i sh js
                else if distance (pos_x sh) (pos_y sh) (pos_x other) (pos_y other)
                          < real_of_int (tank_size other + shell_radius sh)
                then ((h(j \<mapsto> Tank (take_damage other (shell_damage sh))))
                        (i \<mapsto> Shell (sh\<lparr>alive := False\<rparr>)),
                      [ShellTank i j])
                else shell_tank_scan h i sh js)
          else shell_tank_scan h i sh js
      | _ \<Rightarrow> shell_tank_scan h i sh js)"

fun shell_tank_pass ::
  "nat list \<Rightarrow> nat list \<Rightarrow> (nat \<rightharpoonup> entity) \<Rightarrow> (nat \<rightharpoonup> entity) \<times> contact list" where
  "shell_tank_pass es [] h = (h, [])"
| "shell_tank_pass es (i # is) h =
     (case h i of
        Some (Shell sh) \<Rightarrow>
          if alive sh
          then (let (h1, l1) = shell_tank_scan h i sh es;
                    (h2, l2) = shell_tank_pass es is h1
                in (h2, l1 @ l2))
          else shell_tank_pass es is h
      | _ \<Rightarrow> shell_tank_pass es is h)"

text \<open>Shell against Pillbox.\<close>

fun shell_pillbox_scan ::
  "(nat \<rightharpoonup> entity) \<Rightarrow> nat \<Rightarrow> shell \<Rightarrow> nat list \<Rightarrow> (nat \<rightharpoonup> entity) \<times> contact list" where
  "shell_pillbox_scan h i sh [] = (h, [])"
| "shell_pillbox_scan h i sh (j # js) =
     (case h j of
        Some (Pillbox other) \<Rightarrow>
          if alive other \<and> active other
          then (if pillbox_team other = shell_team sh then shell_pillbox_scan h i sh js
                else if distance (pos_x sh) (pos_y sh) (pos_x other) (pos_y other)
                          < real_of_int (pillbox_size other + shell_radius sh)
                then ((h(j \<mapsto> Pillbox (Pillbox_take_damage other (shell_damage sh))))
                        (i \<mapsto> Shell (sh\<lparr>alive := False\<rparr>)),
                      [ShellPillbox i j])
                else shell_pillbox_scan h i sh js)
          else shell_pillbox_scan h i sh js
      | _ \<Rightarrow> shell_pillbox_scan h i sh js)"

fun shell_pillbox_pass ::
  "nat list \<Rightarrow> nat list \<Rightarrow> (nat \<rightharpoonup> entity) \<Rightarrow> (nat \<rightharpoonup> entity) \<times> contact list" where
  "shell_pillbox_pass es [] h = (h, [])"
| "shell_pillbox_pass es (i # is) h =
     (case h i of
        Some (Shell sh) \<Rightarrow>
          if alive sh
          then (let (h1, l1) = shell_pillbox_scan h i sh es;
                    (h2, l2) = shell_pillbox_pass es is h1
                in (h2, l1 @ l2))
          else shell_pillbox_pass es is h
      | _ \<Rightarrow> shell_pillbox_pass es is h)"

text \<open>Tank against Mine; \<open>detonate\<close> also writes the map.\<close>

fun tank_mine_scan ::
  "(nat \<rightharpoonup> entity) \<times> GameMap \<Rightarrow> nat \<Rightarrow> mine \<Rightarrow> nat list
     \<Rightarrow> ((nat \<rightharpoonup> entity) \<times> GameMap) \<times> contact list" where
  "tank_mine_scan (h, m) i mn [] = ((h, m), [])"
| "tank_mine_scan (h, m) i mn (j # js) =
     (case h j of
        Some (Tank other) \<Rightarrow>
          if alive other
          then (if tank_team other = mine_team mn then tank_mine_scan (h, m) i mn js
                else if distance (pos_x mn) (pos_y mn) (pos_x other) (pos_y other)
                          < real_of_int (tank_size other + mine_radius mn)
                then (let (mn', m') = detonate m mn
                      in (((h(j \<mapsto> Tank (take_damage other (mine_damage mn))))
                             (i \<mapsto> Mine mn'), m'),
                          [MineTank i j]))
                else tank_mine_scan (h, m) i mn js)
          else tank_mine_scan (h, m) i mn js
      | _ \<Rightarrow> tank_mine_scan (h, m) i mn js)"

fun tank_mine_pass ::
  "nat list \<Rightarrow> nat list \<Rightarrow> (nat \<rightharpoonup> entity) \<times> GameMap
     \<Rightarrow> ((nat \<rightharpoonup> entity) \<times> GameMap) \<times> contact list" where
  "tank_mine_pass es [] hm = (hm, [])"
| "tank_mine_pass es (i # is) hm =
     (case fst hm i of
        Some (Mine mn) \<Rightarrow>
          if alive mn
          then (let (hm1, l1) = tank_mine_scan hm i mn es;
                    (hm2, l2) = tank_mine_pass es is hm1
                in (hm2, l1 @ l2))
          else tank_mine_pass es is hm
      | _ \<Rightarrow> tank_mine_pass es is hm)"

text \<open>
  Tank against Base. The inner loop has no \<open>break\<close>, and \<open>resupply_tank\<close> changes the
  tank it runs for, so the tank is read from the store at every base.
\<close>

fun tank_base_scan ::
  "(nat \<rightharpoonup> entity) \<Rightarrow> nat \<Rightarrow> nat list \<Rightarrow> (nat \<rightharpoonup> entity) \<times> contact list" where
  "tank_base_scan h i [] = (h, [])"
| "tank_base_scan h i (j # js) =
     (case h i of
        Some (Tank t) \<Rightarrow>
          (case h j of
             Some (Base other) \<Rightarrow>
               if distance (pos_x t) (pos_y t) (pos_x other) (pos_y other)
                    < real_of_int (tank_size t + base_size other)
               then (let (t', b') = tank_base_contact t other;
                         (h', l) = tank_base_scan ((h(i \<mapsto> Tank t'))(j \<mapsto> Base b')) i js
                     in (h', TankBase i j # l))
               else tank_base_scan h i js
           | _ \<Rightarrow> tank_base_scan h i js)
      | _ \<Rightarrow> tank_base_scan h i js)"

fun tank_base_pass ::
  "nat list \<Rightarrow> nat list \<Rightarrow> (nat \<rightharpoonup> entity) \<Rightarrow> (nat \<rightharpoonup> entity) \<times> contact list" where
  "tank_base_pass es [] h = (h, [])"
| "tank_base_pass es (i # is) h =
     (case h i of
        Some (Tank t) \<Rightarrow>
          if alive t
          then (let (h1, l1) = tank_base_scan h i es;
                    (h2, l2) = tank_base_pass es is h1
                in (h2, l1 @ l2))
          else tank_base_pass es is h
      | _ \<Rightarrow> tank_base_pass es is h)"

text \<open>\<open>GameState._process_collisions\<close> with the record of its calls, and without.\<close>

definition process_collisions_log :: "GameState \<Rightarrow> GameState \<times> contact list" where
  "process_collisions_log s =
     (let es = entities s;
          (h1, l1) = shell_tank_pass es es (heap s);
          (h2, l2) = shell_pillbox_pass es es h1;
          ((h3, m3), l3) = tank_mine_pass es es (h2, game_map s);
          (h4, l4) = tank_base_pass es es h3
      in (s\<lparr>heap := h4, game_map := m3\<rparr>, l1 @ l2 @ l3 @ l4))"

definition process_collisions :: "GameState \<Rightarrow> GameState" where
  "process_collisions s = fst (process_collisions_log s)"

subsubsection \<open>The frame\<close>

text \<open>\<open>GameState._update_camera\<close>, for the player object \<open>e\<close>.\<close>

definition update_camera :: "entity \<Rightarrow> GameState \<Rightarrow> GameState" where
  "update_camera e s =
     (let target_x = ent_x e - real_of_int (WINDOW_WIDTH div 2);
          target_y = ent_y e - real_of_int (WINDOW_HEIGHT div 2);
          cx = camera_x s + (target_x - camera_x s) * (1/10);
          cy = camera_y s + (target_y - camera_y s) * (1/10)
      in s\<lparr>camera_x := max 0 (min (real_of_int (pixel_width (game_map s) - WINDOW_WIDTH)) cx),
           camera_y := max 0 (min (real_of_int (pixel_height (game_map s) - WINDOW_HEIGHT)) cy)\<rparr>)"

text \<open>The first step of a frame: \<open>entities.extend(pending_entities)\<close> and
  \<open>pending_entities.clear()\<close>.\<close>

definition merge_pending :: "GameState \<Rightarrow> GameState" where
  "merge_pending s =
     s\<lparr>entities := entities s @ pending_entities s, pending_entities := []\<rparr>"

definition follow_player :: "GameState \<Rightarrow> GameState" where
  "follow_player s =
     (case player s of
        None \<Rightarrow> s
      | Some r \<Rightarrow>
          (case heap s r of
             None \<Rightarrow> s
           | Some e \<Rightarrow> if ent_alive e then update_camera e s else s))"

text \<open>\<open>GameState.update\<close>.\<close>

definition update :: "GameState \<Rightarrow> GameState" where
  "update s =
     (if paused s \<or> game_over s then s
      else follow_player
             (remove_dead_entities (process_collisions (update_entities (merge_pending s)))))"

subsection \<open>Sample inputs\<close>

text \<open>A grid of three columns and two rows that holds the destructible kinds.\<close>

definition demo_map :: GameMap where
  "demo_map =
     \<lparr>width = 3, height = 2,
      tiles = [[WALL, ROAD, FOREST], [SWAMP, RUBBLE, DAMAGED_WALL]], dirty = False\<rparr>"

section \<open>Properties\<close>

lemmas Config_defs =
  TILE_SIZE_def TANK_MAX_ARMOR_def TANK_MAX_SHELLS_def TANK_MAX_MINES_def
  TANK_BASE_SPEED_def TANK_SIZE_def SHELL_DAMAGE_def SHELL_SPEED_def SHELL_LIFETIME_def
  MINE_DAMAGE_def PILLBOX_MAX_HEALTH_def PILLBOX_FIRE_RATE_def PILLBOX_RANGE_def
  BASE_RESUPPLY_RATE_def WINDOW_WIDTH_def WINDOW_HEIGHT_def

subsection \<open>The terrain table\<close>

lemma terrain_get_simps:
  "terrain_get DEEP_WATER = mk_terrain ''Deep Water'' 0 False False False (20, 60, 120)"
  "terrain_get RIVER = mk_terrain ''River'' (3/10) True False False (40, 100, 160)"
  "terrain_get SWAMP = mk_terrain ''Swamp'' (25/100) True False True (60, 80, 40)"
  "terrain_get CRATER = mk_terrain ''Crater'' (5/10) True False False (80, 70, 50)"
  "terrain_get ROAD = mk_terrain ''Road'' (12/10) True False False (60, 60, 60)"
  "terrain_get FOREST = mk_terrain ''Forest'' (4/10) True False True (20, 80, 20)"
  "terrain_get RUBBLE = mk_terrain ''Rubble'' (6/10) True False False (90, 85, 75)"
  "terrain_get GRASS = mk_terrain ''Grass'' (8/10) True False False (50, 120, 50)"
  "terrain_get WALL = mk_terrain ''Wall'' 0 False True True (100, 100, 100)"
  "terrain_get DAMAGED_WALL = mk_terrain ''Damaged Wall'' 0 False True True (120, 110, 100)"
  "terrain_get BOAT = mk_terrain ''Boat'' (8/10) True False True (120, 80, 40)"
  by (simp_all add: terrain_get_def)

lemma TERRAIN_DATA_total: "TERRAIN_DATA k \<noteq> None"
  by (cases k) simp_all

text \<open>
  C7, as the table has it. Every kind has an entry and no speed multiplier is negative.
  Three kinds, not one, have speed multiplier 0 and are impassable: \<open>DEEP_WATER\<close>,
  \<open>WALL\<close> and \<open>DAMAGED_WALL\<close>. Of these exactly one, \<open>DEEP_WATER\<close>, lets shots through.
  \<open>blocks_shots\<close> holds for \<open>WALL\<close> and \<open>DAMAGED_WALL\<close> and for no other kind.
\<close>

theorem terrain_table:
  "dom TERRAIN_DATA = UNIV \<and>
   (\<forall>k. 0 \<le> speed_multiplier (terrain_get k)) \<and>
   {k. speed_multiplier (terrain_get k) = 0 \<and> \<not> passable (terrain_get k)}
     = {DEEP_WATER, WALL, DAMAGED_WALL} \<and>
   {k. speed_multiplier (terrain_get k) = 0 \<and> \<not> passable (terrain_get k) \<and>
       \<not> blocks_shots (terrain_get k)} = {DEEP_WATER} \<and>
   (\<forall>k. blocks_shots (terrain_get k) \<longleftrightarrow> k = WALL \<or> k = DAMAGED_WALL)"
proof -
  have d: "dom TERRAIN_DATA = UNIV"
    using TERRAIN_DATA_total by (auto simp: dom_def)
  have a: "0 \<le> speed_multiplier (terrain_get k)" for k
    by (cases k) (simp_all add: terrain_get_simps mk_terrain_def)
  have b: "speed_multiplier (terrain_get k) = 0 \<and> \<not> passable (terrain_get k)
             \<longleftrightarrow> k \<in> {DEEP_WATER, WALL, DAMAGED_WALL}" for k
    by (cases k) (simp_all add: terrain_get_simps mk_terrain_def)
  have c: "blocks_shots (terrain_get k) \<longleftrightarrow> k = WALL \<or> k = DAMAGED_WALL" for k
    by (cases k) (simp_all add: terrain_get_simps mk_terrain_def)
  have e: "{k. speed_multiplier (terrain_get k) = 0 \<and> \<not> passable (terrain_get k) \<and>
       \<not> blocks_shots (terrain_get k)} = {DEEP_WATER}"
    using b c by auto
  show ?thesis using a b c d e by auto
qed

text \<open>
  C7 as stated fails: \<open>DEEP_WATER\<close> and \<open>WALL\<close> are two different kinds, and each has
  speed multiplier 0 and is impassable.
\<close>

theorem terrain_table_counterexample:
  "speed_multiplier (terrain_get DEEP_WATER) = 0 \<and> \<not> passable (terrain_get DEEP_WATER) \<and>
   speed_multiplier (terrain_get WALL) = 0 \<and> \<not> passable (terrain_get WALL) \<and>
   DEEP_WATER \<noteq> WALL"
  by (simp add: terrain_get_simps mk_terrain_def)

subsection \<open>Reading, writing and damaging tiles\<close>

lemma demo_map_wf: "wf_map demo_map"
  by (simp add: wf_map_def demo_map_def)

lemma wf_map_row:
  "wf_map m \<Longrightarrow> 0 \<le> y \<Longrightarrow> y < height m \<Longrightarrow> length (tiles m ! nat y) = nat (width m)"
  by (auto simp: wf_map_def list_all_length)

lemma wf_map_set_tile: "wf_map m \<Longrightarrow> wf_map (set_tile m x y k)"
  by (auto simp: wf_map_def set_tile_def list_all_length nth_list_update)

lemma set_tile_dims:
  "width (set_tile m x y k) = width m \<and> height (set_tile m x y k) = height m"
  by (simp add: set_tile_def)

lemma get_set_tile_same:
  "wf_map m \<Longrightarrow> in_bounds m x y \<Longrightarrow> get_tile (set_tile m x y k) x y = k"
  using wf_map_row[of m y]
  by (simp add: get_tile_def set_tile_def in_bounds_def wf_map_def)

lemma nth_nth_list_update_other:
  "(i', j') \<noteq> (i, j) \<Longrightarrow> xss[i := (xss ! i)[j := v]] ! i' ! j' = xss ! i' ! j'"
proof (cases "i' = i")
  case False
  then show ?thesis by simp
next
  case True
  assume "(i', j') \<noteq> (i, j)"
  with True have j: "j' \<noteq> j" by simp
  show ?thesis
  proof (cases "i < length xss")
    case True
    with \<open>i' = i\<close> j show ?thesis by simp
  next
    case False
    then have "xss[i := (xss ! i)[j := v]] = xss" by (simp add: list_update_beyond)
    then show ?thesis by simp
  qed
qed

lemma get_set_tile_other:
  assumes "(x', y') \<noteq> (x, y)"
  shows "get_tile (set_tile m x y k) x' y' = get_tile m x' y'"
proof (cases "in_bounds m x y \<and> in_bounds m x' y'")
  case False
  then show ?thesis by (auto simp: get_tile_def set_tile_def in_bounds_def)
next
  case True
  with assms have "(nat y', nat x') \<noteq> (nat y, nat x)"
    by (auto simp: in_bounds_def)
  from nth_nth_list_update_other[OF this, of "tiles m" k] True show ?thesis
    by (simp add: get_tile_def set_tile_def in_bounds_def)
qed

text \<open>
  C9. Outside the rectangle \<open>[0, width) \<times> [0, height)\<close>, \<open>get_tile\<close> returns \<open>WALL\<close> and
  \<open>set_tile\<close> changes nothing at all. Inside it, on a grid of the shape the constructor
  builds, \<open>get_tile\<close> returns the stored cell \<open>tiles[y][x]\<close>, and after \<open>set_tile\<close> that
  cell holds the given kind, every other cell reads as before, and the shape is kept.
\<close>

theorem tile_access:
  "(\<not> in_bounds m x y \<longrightarrow> get_tile m x y = WALL \<and> set_tile m x y k = m) \<and>
   (in_bounds m x y \<and> wf_map m \<longrightarrow>
      get_tile m x y = tiles m ! nat y ! nat x \<and>
      get_tile (set_tile m x y k) x y = k \<and>
      (\<forall>x' y'. (x', y') \<noteq> (x, y) \<longrightarrow>
         get_tile (set_tile m x y k) x' y' = get_tile m x' y') \<and>
      width (set_tile m x y k) = width m \<and> height (set_tile m x y k) = height m \<and>
      wf_map (set_tile m x y k))"
proof (intro conjI impI allI)
  assume "\<not> in_bounds m x y"
  then show "get_tile m x y = WALL" and "set_tile m x y k = m"
    by (auto simp: get_tile_def set_tile_def in_bounds_def)
next
  assume a: "in_bounds m x y \<and> wf_map m"
  then show "get_tile m x y = tiles m ! nat y ! nat x"
    by (simp add: get_tile_def in_bounds_def)
  from a show "get_tile (set_tile m x y k) x y = k"
    by (simp add: get_set_tile_same)
  from a show "wf_map (set_tile m x y k)"
    by (simp add: wf_map_set_tile)
  show "width (set_tile m x y k) = width m" and "height (set_tile m x y k) = height m"
    by (simp_all add: set_tile_dims)
next
  fix x' y'
  assume "(x', y') \<noteq> (x, y)"
  then show "get_tile (set_tile m x y k) x' y' = get_tile m x' y'"
    by (rule get_set_tile_other)
qed

theorem tile_access_witness:
  "\<not> in_bounds demo_map 3 0 \<and> get_tile demo_map 3 0 = WALL \<and>
   set_tile demo_map 3 0 GRASS = demo_map \<and>
   in_bounds demo_map 2 1 \<and> wf_map demo_map \<and>
   get_tile demo_map 2 1 = DAMAGED_WALL \<and>
   get_tile (set_tile demo_map 2 1 GRASS) 2 1 = GRASS \<and>
   get_tile (set_tile demo_map 2 1 GRASS) 1 1 = RUBBLE"
proof -
  have w: "wf_map demo_map" by (rule demo_map_wf)
  have b0: "\<not> in_bounds demo_map 3 0" and b1: "in_bounds demo_map 2 1"
    by (simp_all add: in_bounds_def demo_map_def)
  have t: "tiles demo_map ! nat 1 ! nat 2 = DAMAGED_WALL"
    and r: "get_tile demo_map 1 1 = RUBBLE"
    by (simp_all add: demo_map_def get_tile_def)
  from tile_access[of demo_map 3 0 GRASS] tile_access[of demo_map 2 1 GRASS] w b0 b1 t r
  show ?thesis by simp
qed

lemma damage_tile_other:
  "(x', y') \<noteq> (x, y) \<Longrightarrow> get_tile (damage_tile m x y) x' y' = get_tile m x' y'"
  by (simp add: damage_tile_def Let_def get_set_tile_other)

lemma damage_tile_same:
  "wf_map m \<Longrightarrow> in_bounds m x y \<Longrightarrow>
   get_tile (damage_tile m x y) x y =
     (case get_tile m x y of
        WALL \<Rightarrow> DAMAGED_WALL | DAMAGED_WALL \<Rightarrow> RUBBLE | FOREST \<Rightarrow> GRASS | SWAMP \<Rightarrow> CRATER
      | k \<Rightarrow> k)"
  by (cases "get_tile m x y") (simp_all add: damage_tile_def Let_def get_set_tile_same)

lemma damage_tile_inert:
  "get_tile m x y \<notin> {WALL, DAMAGED_WALL, FOREST, SWAMP} \<Longrightarrow> damage_tile m x y = m"
  by (simp add: damage_tile_def Let_def)

text \<open>
  C8. At a coordinate inside the grid, \<open>damage_tile\<close> turns \<open>WALL\<close> into
  \<open>DAMAGED_WALL\<close>, \<open>DAMAGED_WALL\<close> into \<open>RUBBLE\<close>, \<open>FOREST\<close> into \<open>GRASS\<close> and \<open>SWAMP\<close> into
  \<open>CRATER\<close>; on a cell of any other kind it returns the map as it was, so on \<open>RUBBLE\<close> or
  \<open>ROAD\<close> a second call changes nothing either. No other cell is touched.
\<close>

theorem damage_tile_table:
  "wf_map m \<Longrightarrow> in_bounds m x y \<Longrightarrow>
   get_tile (damage_tile m x y) x y =
     (case get_tile m x y of
        WALL \<Rightarrow> DAMAGED_WALL | DAMAGED_WALL \<Rightarrow> RUBBLE | FOREST \<Rightarrow> GRASS | SWAMP \<Rightarrow> CRATER
      | k \<Rightarrow> k) \<and>
   (get_tile m x y \<notin> {WALL, DAMAGED_WALL, FOREST, SWAMP} \<longrightarrow> damage_tile m x y = m) \<and>
   (get_tile m x y \<in> {RUBBLE, ROAD} \<longrightarrow>
      damage_tile m x y = m \<and> damage_tile (damage_tile m x y) x y = m) \<and>
   (\<forall>x' y'. (x', y') \<noteq> (x, y) \<longrightarrow>
      get_tile (damage_tile m x y) x' y' = get_tile m x' y')"
proof (intro conjI impI allI)
  assume "wf_map m" "in_bounds m x y"
  then show "get_tile (damage_tile m x y) x y =
     (case get_tile m x y of
        WALL \<Rightarrow> DAMAGED_WALL | DAMAGED_WALL \<Rightarrow> RUBBLE | FOREST \<Rightarrow> GRASS | SWAMP \<Rightarrow> CRATER
      | k \<Rightarrow> k)"
    by (rule damage_tile_same)
next
  assume "get_tile m x y \<notin> {WALL, DAMAGED_WALL, FOREST, SWAMP}"
  then show "damage_tile m x y = m" by (rule damage_tile_inert)
next
  assume a: "get_tile m x y \<in> {RUBBLE, ROAD}"
  then have b: "damage_tile m x y = m" by (auto simp: damage_tile_inert)
  show "damage_tile m x y = m" by (rule b)
  show "damage_tile (damage_tile m x y) x y = m" by (simp add: b)
next
  fix x' y'
  assume "(x', y') \<noteq> (x, y)"
  then show "get_tile (damage_tile m x y) x' y' = get_tile m x' y'"
    by (rule damage_tile_other)
qed

theorem damage_tile_table_witness:
  "wf_map demo_map \<and> in_bounds demo_map 0 0 \<and> in_bounds demo_map 1 0 \<and>
   get_tile demo_map 0 0 = WALL \<and> get_tile (damage_tile demo_map 0 0) 0 0 = DAMAGED_WALL \<and>
   get_tile demo_map 1 0 = ROAD \<and> damage_tile demo_map 1 0 = demo_map \<and>
   damage_tile (damage_tile demo_map 1 0) 1 0 = demo_map \<and>
   get_tile (damage_tile demo_map 0 0) 1 0 = ROAD"
proof -
  have w: "wf_map demo_map" by (rule demo_map_wf)
  have b0: "in_bounds demo_map 0 0" and b1: "in_bounds demo_map 1 0"
    by (simp_all add: in_bounds_def demo_map_def)
  have g0: "get_tile demo_map 0 0 = WALL" and g1: "get_tile demo_map 1 0 = ROAD"
    by (simp_all add: get_tile_def demo_map_def)
  from damage_tile_table[OF w b0] damage_tile_table[OF w b1] w b0 b1 g0 g1
  show ?thesis by simp
qed

end
